theory Spec2Isabelle
  imports Main
begin

section \<open>Values, promises and the world\<close>

text \<open>
  The library is a single class \<open>Pieper\<close> over JavaScript promises, and the source holds
  two versions of it: one whose field is a promise (\<open>value: Promise<T>\<close>, called eager
  below, suffix \<open>_e\<close>) and one whose field is a function returning a promise
  (\<open>thunk: () => Promise<T>\<close>, called lazy below, suffix \<open>_l\<close>).

  A promise is modelled by the state it settles in. Every function supplied by the caller
  is taken to return, and every promise it returns is taken to settle; the order in which
  the reactions of one linear chain run is kept, the event loop's interleaving with other
  code is not.
\<close>

datatype ('a, 'e) promise = Fulfilled 'a | Rejected 'e

text \<open>
  JavaScript values. Numbers are integers here, an \<open>Error\<close> object is its message, and a
  promise is a value like any other (the source's \<open>MaybePromise<T> = T | Promise<T>\<close>).
\<close>

datatype jsval =
    VUndefined
  | VNull
  | VBool bool
  | VNum int
  | VStr string
  | VError string
  | VPromise "(jsval, jsval) promise"

text \<open>\<open>SafeResult<T, E>\<close>: \<open>{ok: true, value}\<close> or \<open>{ok: false, error}\<close>.\<close>

datatype safe_result = Ok_true jsval | Ok_false jsval

text \<open>
  The world a call can change: what was written with \<open>console.log\<close> and
  \<open>console.error\<close> (one entry per call, holding its arguments), and whatever state the
  caller's own functions keep.
\<close>

record 'u world =
  console_log :: "jsval list list"
  console_error :: "jsval list list"
  user :: 'u

text \<open>\<open>console.log(...args)\<close> and \<open>console.error(...args)\<close>\<close>

definition js_console_log :: "jsval list \<Rightarrow> 'u world \<Rightarrow> 'u world" where
  "js_console_log args w = w\<lparr>console_log := console_log w @ [args]\<rparr>"

definition js_console_error :: "jsval list \<Rightarrow> 'u world \<Rightarrow> 'u world" where
  "js_console_error args w = w\<lparr>console_error := console_error w @ [args]\<rparr>"

text \<open>What calling a function does: it returns a value or throws one.\<close>

datatype completion = Returns jsval | Throws jsval

type_synonym 'u fn0 = "'u world \<Rightarrow> completion \<times> 'u world"
type_synonym 'u fn1 = "jsval \<Rightarrow> 'u world \<Rightarrow> completion \<times> 'u world"

text \<open>The truth value JavaScript gives a value in \<open>if (x)\<close>, \<open>!x\<close> and \<open>x ? a : b\<close>.\<close>

fun truthy :: "jsval \<Rightarrow> bool" where
  "truthy VUndefined = False"
| "truthy VNull = False"
| "truthy (VBool b) = b"
| "truthy (VNum n) = (n \<noteq> 0)"
| "truthy (VStr s) = (s \<noteq> [])"
| "truthy (VError m) = True"
| "truthy (VPromise p) = True"

section \<open>Promise operations\<close>

text \<open>
  \<open>Promise.resolve(x)\<close>, and the resolution of any promise with \<open>x\<close>: a promise is
  adopted, any other value fulfils.
\<close>

fun promise_resolve :: "jsval \<Rightarrow> (jsval, jsval) promise" where
  "promise_resolve (VPromise (Fulfilled v)) = promise_resolve v"
| "promise_resolve (VPromise (Rejected e)) = Rejected e"
| "promise_resolve v = Fulfilled v"

text \<open>
  The promise that a reaction callback, a promise executor or an \<open>async\<close> function body
  leaves: rejected with what was thrown, resolved with what was returned.
\<close>

fun settle :: "completion \<Rightarrow> (jsval, jsval) promise" where
  "settle (Throws e) = Rejected e"
| "settle (Returns v) = promise_resolve v"

text \<open>\<open>p.then(fn)\<close>\<close>

fun promise_then ::
  "(jsval, jsval) promise \<Rightarrow> 'u fn1 \<Rightarrow> 'u world \<Rightarrow> (jsval, jsval) promise \<times> 'u world" where
  "promise_then (Rejected e) fn w = (Rejected e, w)"
| "promise_then (Fulfilled v) fn w = (case fn v w of (c, w') \<Rightarrow> (settle c, w'))"

text \<open>\<open>p.catch(fn)\<close>\<close>

fun promise_catch ::
  "(jsval, jsval) promise \<Rightarrow> 'u fn1 \<Rightarrow> 'u world \<Rightarrow> (jsval, jsval) promise \<times> 'u world" where
  "promise_catch (Fulfilled v) fn w = (Fulfilled v, w)"
| "promise_catch (Rejected e) fn w = (case fn e w of (c, w') \<Rightarrow> (settle c, w'))"

text \<open>
  \<open>p.finally(fn)\<close>: \<open>fn\<close> is called with no argument once \<open>p\<close> has settled; the result
  is \<open>p\<close>'s own state unless \<open>fn\<close> throws or returns a promise that rejects.
\<close>

definition promise_finally ::
  "(jsval, jsval) promise \<Rightarrow> 'u fn0 \<Rightarrow> 'u world \<Rightarrow> (jsval, jsval) promise \<times> 'u world" where
  "promise_finally p fn w =
     (case fn w of (c, w') \<Rightarrow>
        (case settle c of Rejected e \<Rightarrow> (Rejected e, w') | Fulfilled r \<Rightarrow> (p, w')))"

text \<open>An \<open>async\<close> function returns the promise of its body.\<close>

definition async_returns ::
  "(jsval, jsval) promise \<times> 'u world \<Rightarrow> completion \<times> 'u world" where
  "async_returns r = (case r of (p, w) \<Rightarrow> (Returns (VPromise p), w))"

text \<open>
  \<open>await x\<close> inside an \<open>async\<close> function waits for the promise \<open>x\<close> resolves to: when it
  fulfils, the function goes on with its value; when it rejects, the function throws.
\<close>

definition js_await :: "jsval \<Rightarrow> (jsval, jsval) promise" where
  "js_await x = promise_resolve x"

section \<open>The callbacks the class itself builds\<close>

text \<open>The else branch of \<open>if\<close>: \<open>(value) => value\<close>.\<close>

definition identity_fn :: "'u fn1" where
  "identity_fn value w = (Returns value, w)"

text \<open>
  The callback of \<open>ifElse\<close> in the eager class:
  \<^verbatim>\<open>async (value) => {
    const conditionResult = await Promise.resolve(condition(value));
    if (conditionResult) return thenFn(value);
    else return elseFn(value);
  }\<close>
\<close>

definition ifElse_cb_e :: "'u fn1 \<Rightarrow> 'u fn1 \<Rightarrow> 'u fn1 \<Rightarrow> 'u fn1" where
  "ifElse_cb_e condition thenFn elseFn value w =
     async_returns
       (case condition value w of
          (Throws e, w1) \<Rightarrow> (Rejected e, w1)
        | (Returns r, w1) \<Rightarrow>
            (case js_await (VPromise (promise_resolve r)) of
               Rejected e \<Rightarrow> (Rejected e, w1)
             | Fulfilled conditionResult \<Rightarrow>
                 (case (if truthy conditionResult then thenFn value w1 else elseFn value w1) of
                    (c, w2) \<Rightarrow> (settle c, w2))))"

text \<open>
  The callback of \<open>ifElse\<close> in the lazy class:
  \<^verbatim>\<open>async (value) => {
    const cond = await condition(value);
    return cond ? thenFn(value) : elseFn(value);
  }\<close>
\<close>

definition ifElse_cb_l :: "'u fn1 \<Rightarrow> 'u fn1 \<Rightarrow> 'u fn1 \<Rightarrow> 'u fn1" where
  "ifElse_cb_l condition thenFn elseFn value w =
     async_returns
       (case condition value w of
          (Throws e, w1) \<Rightarrow> (Rejected e, w1)
        | (Returns r, w1) \<Rightarrow>
            (case js_await r of
               Rejected e \<Rightarrow> (Rejected e, w1)
             | Fulfilled cond \<Rightarrow>
                 (case (if truthy cond then thenFn value w1 else elseFn value w1) of
                    (c, w2) \<Rightarrow> (settle c, w2))))"

text \<open>
  The callback of \<open>tap\<close>, eager:
  \<^verbatim>\<open>async (value) => { await Promise.resolve(fn(value)); return value; }\<close>
  and lazy:
  \<^verbatim>\<open>async (value) => { await fn(value); return value; }\<close>
\<close>

definition tap_cb_e :: "'u fn1 \<Rightarrow> 'u fn1" where
  "tap_cb_e fn value w =
     async_returns
       (case fn value w of
          (Throws e, w1) \<Rightarrow> (Rejected e, w1)
        | (Returns r, w1) \<Rightarrow>
            (case js_await (VPromise (promise_resolve r)) of
               Rejected e \<Rightarrow> (Rejected e, w1)
             | Fulfilled u \<Rightarrow> (promise_resolve value, w1)))"

definition tap_cb_l :: "'u fn1 \<Rightarrow> 'u fn1" where
  "tap_cb_l fn value w =
     async_returns
       (case fn value w of
          (Throws e, w1) \<Rightarrow> (Rejected e, w1)
        | (Returns r, w1) \<Rightarrow>
            (case js_await r of
               Rejected e \<Rightarrow> (Rejected e, w1)
             | Fulfilled u \<Rightarrow> (promise_resolve value, w1)))"

text \<open>
  The function \<open>log\<close> hands to \<open>tap\<close>, the same in both classes:
  \<^verbatim>\<open>(value) => {
    if (message) console.log(message, value);
    else console.log(value);
  }\<close>
  \<open>message\<close> is optional; an absent and an empty message are both falsy.
\<close>

definition log_fn :: "string option \<Rightarrow> 'u fn1" where
  "log_fn message v w =
     (case message of
        None \<Rightarrow> (Returns VUndefined, js_console_log [v] w)
      | Some m \<Rightarrow>
          (if truthy (VStr m)
           then (Returns VUndefined, js_console_log [VStr m, v] w)
           else (Returns VUndefined, js_console_log [v] w)))"

text \<open>
  The error of a failed \<open>assert\<close>, the same expression in both classes:
  \<^verbatim>\<open>typeof errorMessageOrError === "string"
    ? new Error(errorMessageOrError) : errorMessageOrError\<close>
\<close>

fun assert_error :: "jsval \<Rightarrow> jsval" where
  "assert_error (VStr m) = VError m"
| "assert_error e = e"

text \<open>
  The callback of \<open>assert\<close> in the eager class ends a failed check with
  \<^verbatim>\<open>return error;\<close>:
  \<^verbatim>\<open>async (value) => {
    const isValid = await Promise.resolve(predicate(value));
    if (!isValid) {
      const error = ...;
      return error;
    }
    return value;
  }\<close>
\<close>

definition assert_cb_e :: "'u fn1 \<Rightarrow> jsval \<Rightarrow> 'u fn1" where
  "assert_cb_e predicate errorMessageOrError value w =
     async_returns
       (case predicate value w of
          (Throws e, w1) \<Rightarrow> (Rejected e, w1)
        | (Returns r, w1) \<Rightarrow>
            (case js_await (VPromise (promise_resolve r)) of
               Rejected e \<Rightarrow> (Rejected e, w1)
             | Fulfilled isValid \<Rightarrow>
                 (if \<not> truthy isValid
                  then (settle (Returns (assert_error errorMessageOrError)), w1)
                  else (settle (Returns value), w1))))"

text \<open>
  The callback of \<open>assert\<close> in the lazy class ends a failed check with
  \<^verbatim>\<open>throw error;\<close>:
  \<^verbatim>\<open>async (value) => {
    const isValid = await predicate(value);
    if (!isValid) {
      const error = ...;
      throw error;
    }
    return value;
  }\<close>
\<close>

definition assert_cb_l :: "'u fn1 \<Rightarrow> jsval \<Rightarrow> 'u fn1" where
  "assert_cb_l predicate errorMessageOrError value w =
     async_returns
       (case predicate value w of
          (Throws e, w1) \<Rightarrow> (Rejected e, w1)
        | (Returns r, w1) \<Rightarrow>
            (case js_await r of
               Rejected e \<Rightarrow> (Rejected e, w1)
             | Fulfilled isValid \<Rightarrow>
                 (if \<not> truthy isValid
                  then (settle (Throws (assert_error errorMessageOrError)), w1)
                  else (settle (Returns value), w1))))"

text \<open>
  The handler of \<open>runAndForget\<close>:
  \<^verbatim>\<open>(error) => console.error("Pieper failed (runAndForget):", error)\<close>
\<close>

definition forget_handler :: "'u fn1" where
  "forget_handler error w =
     (Returns VUndefined, js_console_error [VStr ''Pieper failed (runAndForget):'', error] w)"

section \<open>The eager class\<close>

text \<open>
  \<^verbatim>\<open>private readonly value: Promise<T>;\<close>
  The promise exists from construction on. A reaction attached to it with \<open>then\<close>,
  \<open>catch\<close> or \<open>finally\<close> runs once the promise has settled, whether or not a terminal
  operation is ever called; the model runs it where the method attaches it. So each method
  of this class takes the world and returns the new pipeline with the new world.
\<close>

datatype pieper_e = Pieper_e (e_value: "(jsval, jsval) promise")

text \<open>\<^verbatim>\<open>static of(value) { return new Pieper(Promise.resolve(value)); }\<close>\<close>

definition of_e :: "jsval \<Rightarrow> 'u world \<Rightarrow> pieper_e \<times> 'u world" where
  "of_e value w = (Pieper_e (promise_resolve value), w)"

text \<open>
  \<^verbatim>\<open>static from(fn) {
    const promise = new Promise((resolve) => { resolve(fn()); });
    return new Pieper(promise);
  }\<close>
  The executor runs inside the \<open>Promise\<close> constructor: \<open>fn\<close> is called there, and what
  it throws rejects the promise.
\<close>

definition from_e :: "'u fn0 \<Rightarrow> 'u world \<Rightarrow> pieper_e \<times> 'u world" where
  "from_e fn w = (case fn w of (c, w') \<Rightarrow> (Pieper_e (settle c), w'))"

text \<open>\<^verbatim>\<open>map(fn) { return new Pieper(this.value.then(fn)); }\<close>\<close>

definition map_e :: "'u fn1 \<Rightarrow> pieper_e \<Rightarrow> 'u world \<Rightarrow> pieper_e \<times> 'u world" where
  "map_e fn p w = (case promise_then (e_value p) fn w of (q, w') \<Rightarrow> (Pieper_e q, w'))"

definition ifElse_e ::
  "'u fn1 \<Rightarrow> 'u fn1 \<Rightarrow> 'u fn1 \<Rightarrow> pieper_e \<Rightarrow> 'u world \<Rightarrow> pieper_e \<times> 'u world" where
  "ifElse_e condition thenFn elseFn p w =
     (case promise_then (e_value p) (ifElse_cb_e condition thenFn elseFn) w of
        (newValue, w') \<Rightarrow> (Pieper_e newValue, w'))"

text \<open>\<^verbatim>\<open>if(condition, thenFn) { return this.ifElse(condition, thenFn, (value) => value); }\<close>\<close>

definition if_e :: "'u fn1 \<Rightarrow> 'u fn1 \<Rightarrow> pieper_e \<Rightarrow> 'u world \<Rightarrow> pieper_e \<times> 'u world" where
  "if_e condition thenFn p w = ifElse_e condition thenFn identity_fn p w"

definition tap_e :: "'u fn1 \<Rightarrow> pieper_e \<Rightarrow> 'u world \<Rightarrow> pieper_e \<times> 'u world" where
  "tap_e fn p w =
     (case promise_then (e_value p) (tap_cb_e fn) w of
        (newValue, w') \<Rightarrow> (Pieper_e newValue, w'))"

definition log_e :: "string option \<Rightarrow> pieper_e \<Rightarrow> 'u world \<Rightarrow> pieper_e \<times> 'u world" where
  "log_e message p w = tap_e (log_fn message) p w"

text \<open>\<^verbatim>\<open>catch(fn) { return new Pieper(this.value.catch(fn)); }\<close>\<close>

definition catch_e :: "'u fn1 \<Rightarrow> pieper_e \<Rightarrow> 'u world \<Rightarrow> pieper_e \<times> 'u world" where
  "catch_e fn p w = (case promise_catch (e_value p) fn w of (q, w') \<Rightarrow> (Pieper_e q, w'))"

text \<open>\<^verbatim>\<open>finally(fn) { return new Pieper(this.value.finally(fn)); }\<close>\<close>

definition finally_e :: "'u fn0 \<Rightarrow> pieper_e \<Rightarrow> 'u world \<Rightarrow> pieper_e \<times> 'u world" where
  "finally_e fn p w = (case promise_finally (e_value p) fn w of (q, w') \<Rightarrow> (Pieper_e q, w'))"

definition assert_e :: "'u fn1 \<Rightarrow> jsval \<Rightarrow> pieper_e \<Rightarrow> 'u world \<Rightarrow> pieper_e \<times> 'u world" where
  "assert_e predicate errorMessageOrError p w =
     (case promise_then (e_value p) (assert_cb_e predicate errorMessageOrError) w of
        (newValue, w') \<Rightarrow> (Pieper_e newValue, w'))"

text \<open>\<^verbatim>\<open>run() { return this.value; }\<close>\<close>

definition run_e :: "pieper_e \<Rightarrow> 'u world \<Rightarrow> (jsval, jsval) promise \<times> 'u world" where
  "run_e p w = (e_value p, w)"

text \<open>
  \<^verbatim>\<open>async runSafe() {
    try { const value = await this.value; return { ok: true, value }; }
    catch (error) { return { ok: false, error }; }
  }\<close>
\<close>

definition runSafe_e :: "pieper_e \<Rightarrow> 'u world \<Rightarrow> (safe_result, jsval) promise \<times> 'u world" where
  "runSafe_e p w =
     (case e_value p of
        Fulfilled value \<Rightarrow> (Fulfilled (Ok_true value), w)
      | Rejected error \<Rightarrow> (Fulfilled (Ok_false error), w))"

text \<open>\<^verbatim>\<open>runAndForget() { this.value.catch((error) => { console.error(...); }); }\<close>\<close>

definition runAndForget_e :: "pieper_e \<Rightarrow> 'u world \<Rightarrow> 'u world" where
  "runAndForget_e p w = snd (promise_catch (e_value p) forget_handler w)"

section \<open>The lazy class\<close>

text \<open>
  \<^verbatim>\<open>private readonly thunk: () => Promise<T>;\<close>
  Calling the thunk either returns a promise (\<open>Inr\<close>) or throws (\<open>Inl\<close>): a thunk is an
  ordinary function, and nothing in it catches what a call inside it throws.
\<close>

type_synonym 'u thunk = "'u world \<Rightarrow> (jsval + (jsval, jsval) promise) \<times> 'u world"

datatype 'u pieper_l = Pieper_l (l_thunk: "'u thunk")

text \<open>
  Every chaining method of the lazy class has the shape
  \<^verbatim>\<open>return new Pieper(() => this.thunk().m(...));\<close>
  Inside the new thunk, \<open>this.thunk()\<close> is called first; when it throws, the method \<open>m\<close> is
  not reached and the throw leaves the new thunk; otherwise \<open>m\<close> reacts to the promise.
\<close>

definition on_thunk ::
  "'u thunk \<Rightarrow> ((jsval, jsval) promise \<Rightarrow> 'u world \<Rightarrow> (jsval, jsval) promise \<times> 'u world) \<Rightarrow> 'u thunk"
  where
  "on_thunk th m w =
     (case th w of
        (Inl e, w1) \<Rightarrow> (Inl e, w1)
      | (Inr p, w1) \<Rightarrow> (case m p w1 of (q, w2) \<Rightarrow> (Inr q, w2)))"

text \<open>\<^verbatim>\<open>static of(value) { return new Pieper(() => Promise.resolve(value)); }\<close>\<close>

definition of_l :: "jsval \<Rightarrow> 'u world \<Rightarrow> 'u pieper_l \<times> 'u world" where
  "of_l value w = (Pieper_l (\<lambda>w1. (Inr (promise_resolve value), w1)), w)"

text \<open>
  \<^verbatim>\<open>static from(fn) { return new Pieper(() => Promise.resolve(fn())); }\<close>
  The argument \<open>fn()\<close> is evaluated before \<open>Promise.resolve\<close> is entered.
\<close>

definition from_l :: "'u fn0 \<Rightarrow> 'u world \<Rightarrow> 'u pieper_l \<times> 'u world" where
  "from_l fn w =
     (Pieper_l (\<lambda>w1. case fn w1 of
                        (Throws e, w2) \<Rightarrow> (Inl e, w2)
                      | (Returns r, w2) \<Rightarrow> (Inr (promise_resolve r), w2)),
      w)"

text \<open>\<^verbatim>\<open>map(fn) { return new Pieper(() => this.thunk().then(fn)); }\<close>\<close>

definition map_l :: "'u fn1 \<Rightarrow> 'u pieper_l \<Rightarrow> 'u world \<Rightarrow> 'u pieper_l \<times> 'u world" where
  "map_l fn p w = (Pieper_l (on_thunk (l_thunk p) (\<lambda>q. promise_then q fn)), w)"

text \<open>
  \<^verbatim>\<open>flatMap(fn) {
    return new Pieper(() => this.thunk().then((value) => fn(value).run()));
  }\<close>
  \<open>fn\<close> returns a pipeline or throws; \<open>run()\<close> calls that pipeline's thunk.
\<close>

definition flatMap_cb :: "(jsval \<Rightarrow> 'u world \<Rightarrow> (jsval + 'u pieper_l) \<times> 'u world) \<Rightarrow> 'u fn1" where
  "flatMap_cb fn value w =
     (case fn value w of
        (Inl e, w1) \<Rightarrow> (Throws e, w1)
      | (Inr inner, w1) \<Rightarrow>
          (case l_thunk inner w1 of
             (Inl e, w2) \<Rightarrow> (Throws e, w2)
           | (Inr q, w2) \<Rightarrow> (Returns (VPromise q), w2)))"

definition flatMap_l ::
  "(jsval \<Rightarrow> 'u world \<Rightarrow> (jsval + 'u pieper_l) \<times> 'u world) \<Rightarrow> 'u pieper_l \<Rightarrow> 'u world
     \<Rightarrow> 'u pieper_l \<times> 'u world" where
  "flatMap_l fn p w =
     (Pieper_l (on_thunk (l_thunk p) (\<lambda>q. promise_then q (flatMap_cb fn))), w)"

definition ifElse_l ::
  "'u fn1 \<Rightarrow> 'u fn1 \<Rightarrow> 'u fn1 \<Rightarrow> 'u pieper_l \<Rightarrow> 'u world \<Rightarrow> 'u pieper_l \<times> 'u world" where
  "ifElse_l condition thenFn elseFn p w =
     (Pieper_l (on_thunk (l_thunk p)
                  (\<lambda>q. promise_then q (ifElse_cb_l condition thenFn elseFn))), w)"

text \<open>\<^verbatim>\<open>if(condition, thenFn) { return this.ifElse(condition, thenFn, (value) => value); }\<close>\<close>

definition if_l :: "'u fn1 \<Rightarrow> 'u fn1 \<Rightarrow> 'u pieper_l \<Rightarrow> 'u world \<Rightarrow> 'u pieper_l \<times> 'u world" where
  "if_l condition thenFn p w = ifElse_l condition thenFn identity_fn p w"

definition tap_l :: "'u fn1 \<Rightarrow> 'u pieper_l \<Rightarrow> 'u world \<Rightarrow> 'u pieper_l \<times> 'u world" where
  "tap_l fn p w = (Pieper_l (on_thunk (l_thunk p) (\<lambda>q. promise_then q (tap_cb_l fn))), w)"

definition log_l :: "string option \<Rightarrow> 'u pieper_l \<Rightarrow> 'u world \<Rightarrow> 'u pieper_l \<times> 'u world" where
  "log_l message p w = tap_l (log_fn message) p w"

text \<open>\<^verbatim>\<open>catch(fn) { return new Pieper(() => this.thunk().catch(fn)); }\<close>\<close>

definition catch_l :: "'u fn1 \<Rightarrow> 'u pieper_l \<Rightarrow> 'u world \<Rightarrow> 'u pieper_l \<times> 'u world" where
  "catch_l fn p w = (Pieper_l (on_thunk (l_thunk p) (\<lambda>q. promise_catch q fn)), w)"

text \<open>\<^verbatim>\<open>finally(fn) { return new Pieper(() => this.thunk().finally(fn)); }\<close>\<close>

definition finally_l :: "'u fn0 \<Rightarrow> 'u pieper_l \<Rightarrow> 'u world \<Rightarrow> 'u pieper_l \<times> 'u world" where
  "finally_l fn p w = (Pieper_l (on_thunk (l_thunk p) (\<lambda>q. promise_finally q fn)), w)"

definition assert_l ::
  "'u fn1 \<Rightarrow> jsval \<Rightarrow> 'u pieper_l \<Rightarrow> 'u world \<Rightarrow> 'u pieper_l \<times> 'u world" where
  "assert_l predicate errorMessageOrError p w =
     (Pieper_l (on_thunk (l_thunk p)
                  (\<lambda>q. promise_then q (assert_cb_l predicate errorMessageOrError))), w)"

text \<open>\<^verbatim>\<open>run() { return this.thunk(); }\<close>\<close>

definition run_l :: "'u pieper_l \<Rightarrow> 'u world \<Rightarrow> (jsval + (jsval, jsval) promise) \<times> 'u world" where
  "run_l p w = l_thunk p w"

text \<open>
  \<^verbatim>\<open>async runSafe() {
    try { const value = await this.thunk(); return { ok: true, value }; }
    catch (error) { return { ok: false, error }; }
  }\<close>
  The call \<open>this.thunk()\<close> is inside the \<open>try\<close>, so the \<open>catch\<close> receives both what the
  thunk throws and what the awaited promise rejects with.
\<close>

definition runSafe_l :: "'u pieper_l \<Rightarrow> 'u world \<Rightarrow> (safe_result, jsval) promise \<times> 'u world" where
  "runSafe_l p w =
     (case l_thunk p w of
        (Inl error, w1) \<Rightarrow> (Fulfilled (Ok_false error), w1)
      | (Inr (Fulfilled value), w1) \<Rightarrow> (Fulfilled (Ok_true value), w1)
      | (Inr (Rejected error), w1) \<Rightarrow> (Fulfilled (Ok_false error), w1))"

text \<open>
  \<^verbatim>\<open>runAndForget() { this.thunk().catch((error) => console.error(...)); }\<close>
  Returns nothing (\<open>Inr ()\<close>) or lets through what the thunk throws (\<open>Inl\<close>).
\<close>

definition runAndForget_l :: "'u pieper_l \<Rightarrow> 'u world \<Rightarrow> (jsval + unit) \<times> 'u world" where
  "runAndForget_l p w =
     (case l_thunk p w of
        (Inl e, w1) \<Rightarrow> (Inl e, w1)
      | (Inr q, w1) \<Rightarrow> (Inr (), snd (promise_catch q forget_handler w1)))"

section \<open>Chains of calls on the lazy class\<close>

text \<open>
  A chain is a root constructor followed by chaining calls, as in
  \<^verbatim>\<open>Pieper.of(5).map(f).tap(g).catch(h)\<close>.
\<close>

datatype 'u root = Root_of jsval | Root_from "'u fn0"

datatype 'u call =
    Call_map "'u fn1"
  | Call_flatMap "jsval \<Rightarrow> 'u world \<Rightarrow> (jsval + 'u pieper_l) \<times> 'u world"
  | Call_if "'u fn1" "'u fn1"
  | Call_ifElse "'u fn1" "'u fn1" "'u fn1"
  | Call_tap "'u fn1"
  | Call_log "string option"
  | Call_assert "'u fn1" jsval
  | Call_catch "'u fn1"
  | Call_finally "'u fn0"

fun construct_l :: "'u root \<Rightarrow> 'u world \<Rightarrow> 'u pieper_l \<times> 'u world" where
  "construct_l (Root_of value) w = of_l value w"
| "construct_l (Root_from fn) w = from_l fn w"

fun attach_l :: "'u call \<Rightarrow> 'u pieper_l \<Rightarrow> 'u world \<Rightarrow> 'u pieper_l \<times> 'u world" where
  "attach_l (Call_map fn) p w = map_l fn p w"
| "attach_l (Call_flatMap fn) p w = flatMap_l fn p w"
| "attach_l (Call_if condition thenFn) p w = if_l condition thenFn p w"
| "attach_l (Call_ifElse condition thenFn elseFn) p w = ifElse_l condition thenFn elseFn p w"
| "attach_l (Call_tap fn) p w = tap_l fn p w"
| "attach_l (Call_log message) p w = log_l message p w"
| "attach_l (Call_assert predicate errorMessageOrError) p w =
     assert_l predicate errorMessageOrError p w"
| "attach_l (Call_catch fn) p w = catch_l fn p w"
| "attach_l (Call_finally fn) p w = finally_l fn p w"

fun chain_l :: "'u call list \<Rightarrow> 'u pieper_l \<Rightarrow> 'u world \<Rightarrow> 'u pieper_l \<times> 'u world" where
  "chain_l [] p w = (p, w)"
| "chain_l (c # cs) p w = (case attach_l c p w of (q, w') \<Rightarrow> chain_l cs q w')"

definition build_l :: "'u root \<Rightarrow> 'u call list \<Rightarrow> 'u world \<Rightarrow> 'u pieper_l \<times> 'u world" where
  "build_l r cs w = (case construct_l r w of (p, w') \<Rightarrow> chain_l cs p w')"

text \<open>
  One execution of a chain from its root, written directly: the root producer runs in the
  given world, then each call reacts in turn to the promise before it; once a call has
  thrown, nothing after it runs.
\<close>

fun exec_root :: "'u root \<Rightarrow> 'u thunk" where
  "exec_root (Root_of value) w = (Inr (promise_resolve value), w)"
| "exec_root (Root_from fn) w =
     (case fn w of
        (Throws e, w1) \<Rightarrow> (Inl e, w1)
      | (Returns r, w1) \<Rightarrow> (Inr (promise_resolve r), w1))"

fun react_l ::
  "'u call \<Rightarrow> (jsval, jsval) promise \<Rightarrow> 'u world \<Rightarrow> (jsval, jsval) promise \<times> 'u world" where
  "react_l (Call_map fn) q w = promise_then q fn w"
| "react_l (Call_flatMap fn) q w = promise_then q (flatMap_cb fn) w"
| "react_l (Call_if condition thenFn) q w =
     promise_then q (ifElse_cb_l condition thenFn identity_fn) w"
| "react_l (Call_ifElse condition thenFn elseFn) q w =
     promise_then q (ifElse_cb_l condition thenFn elseFn) w"
| "react_l (Call_tap fn) q w = promise_then q (tap_cb_l fn) w"
| "react_l (Call_log message) q w = promise_then q (tap_cb_l (log_fn message)) w"
| "react_l (Call_assert predicate errorMessageOrError) q w =
     promise_then q (assert_cb_l predicate errorMessageOrError) w"
| "react_l (Call_catch fn) q w = promise_catch q fn w"
| "react_l (Call_finally fn) q w = promise_finally q fn w"

fun exec_calls ::
  "'u call list \<Rightarrow> (jsval + (jsval, jsval) promise) \<times> 'u world
     \<Rightarrow> (jsval + (jsval, jsval) promise) \<times> 'u world" where
  "exec_calls [] r = r"
| "exec_calls (c # cs) (Inl e, w) = (Inl e, w)"
| "exec_calls (c # cs) (Inr q, w) =
     exec_calls cs (case react_l c q w of (q', w') \<Rightarrow> (Inr q', w'))"

definition exec_chain :: "'u root \<Rightarrow> 'u call list \<Rightarrow> 'u thunk" where
  "exec_chain r cs w = exec_calls cs (exec_root r w)"

text \<open>The calls whose method is built on \<open>then\<close>: all but \<open>catch\<close> and \<open>finally\<close>.\<close>

fun uses_then :: "'u call \<Rightarrow> bool" where
  "uses_then (Call_catch fn) = False"
| "uses_then (Call_finally fn) = False"
| "uses_then c = True"

section \<open>Functions a caller can write\<close>

text \<open>\<open>(x) => g(f(x))\<close>: what \<open>f\<close> returns is handed to \<open>g\<close> as it is.\<close>

definition compose_fn :: "'u fn1 \<Rightarrow> 'u fn1 \<Rightarrow> 'u fn1" where
  "compose_fn g f x w =
     (case f x w of (Throws e, w1) \<Rightarrow> (Throws e, w1) | (Returns y, w1) \<Rightarrow> g y w1)"

fun is_promise :: "jsval \<Rightarrow> bool" where
  "is_promise (VPromise p) = True"
| "is_promise v = False"

text \<open>A call that threw, or returned something that is not a promise.\<close>

fun returns_plain :: "completion \<Rightarrow> bool" where
  "returns_plain (Returns y) = (\<not> is_promise y)"
| "returns_plain (Throws e) = True"

text \<open>
  Method-call chaining on a result together with the world it left:
  \<open>dot (dot (of_l v w) (map_l f)) run_l\<close> is \<open>Pieper.of(v).map(f).run()\<close> started in \<open>w\<close>.
\<close>

definition dot :: "'a \<times> 'w \<Rightarrow> ('a \<Rightarrow> 'w \<Rightarrow> 'b \<times> 'w) \<Rightarrow> 'b \<times> 'w" where
  "dot r m = m (fst r) (snd r)"

text \<open>
  The caller's state in the examples is the list of the names of the functions called so
  far: each function below first notes its own name, as a test with call counters does.
\<close>

definition noted :: "string \<Rightarrow> (jsval \<Rightarrow> completion) \<Rightarrow> string list fn1" where
  "noted name f v w = (f v, w\<lparr>user := user w @ [name]\<rparr>)"

definition noted0 :: "string \<Rightarrow> completion \<Rightarrow> string list fn0" where
  "noted0 name c w = (c, w\<lparr>user := user w @ [name]\<rparr>)"

definition world0 :: "string list world" where
  "world0 = \<lparr>console_log = [], console_error = [], user = []\<rparr>"

text \<open>
  \<open>(x) => x + k\<close>, \<open>(x) => x * k\<close> and \<open>(x) => x > k\<close>, given for numbers (the examples
  apply them to numbers only), \<open>async (x) => x + k\<close>, \<open>(x) => r\<close> and
  \<open>(x) => x instanceof Promise\<close>.
\<close>

fun plus_k :: "int \<Rightarrow> jsval \<Rightarrow> completion" where
  "plus_k k (VNum n) = Returns (VNum (n + k))"
| "plus_k k v = Returns VUndefined"

fun times_k :: "int \<Rightarrow> jsval \<Rightarrow> completion" where
  "times_k k (VNum n) = Returns (VNum (n * k))"
| "times_k k v = Returns VUndefined"

fun greater_k :: "int \<Rightarrow> jsval \<Rightarrow> completion" where
  "greater_k k (VNum n) = Returns (VBool (n > k))"
| "greater_k k v = Returns (VBool False)"

fun plus_k_async :: "int \<Rightarrow> jsval \<Rightarrow> completion" where
  "plus_k_async k (VNum n) = Returns (VPromise (Fulfilled (VNum (n + k))))"
| "plus_k_async k v = Returns (VPromise (Fulfilled VUndefined))"

definition const_fn :: "jsval \<Rightarrow> jsval \<Rightarrow> completion" where
  "const_fn r x = Returns r"

definition instanceof_Promise :: "jsval \<Rightarrow> completion" where
  "instanceof_Promise y = Returns (VBool (is_promise y))"

text \<open>\<open>() => { throw new Error("boom"); }\<close> and \<open>() => 5\<close>, each noting its call.\<close>

definition thrower :: "string list fn0" where
  "thrower = noted0 ''root'' (Throws (VError ''boom''))"

definition producer :: "string list fn0" where
  "producer = noted0 ''root'' (Returns (VNum 5))"

section \<open>Facts about promises and callbacks\<close>

lemmas eager_defs = of_e_def from_e_def map_e_def ifElse_e_def if_e_def tap_e_def log_e_def
  catch_e_def finally_e_def assert_e_def run_e_def runSafe_e_def runAndForget_e_def

lemmas lazy_defs = of_l_def from_l_def map_l_def flatMap_l_def ifElse_l_def if_l_def tap_l_def
  log_l_def catch_l_def finally_l_def assert_l_def run_l_def runSafe_l_def runAndForget_l_def
  on_thunk_def

lemmas callback_defs = ifElse_cb_e_def ifElse_cb_l_def tap_cb_e_def tap_cb_l_def log_fn_def
  assert_cb_e_def assert_cb_l_def forget_handler_def flatMap_cb_def identity_fn_def
  async_returns_def js_await_def promise_finally_def js_console_log_def js_console_error_def

lemmas example_defs = noted_def noted0_def world0_def dot_def thrower_def producer_def
  const_fn_def instanceof_Promise_def

text \<open>A promise never fulfils with a promise: resolving flattens.\<close>

lemma promise_resolve_flat:
  "promise_resolve x = Fulfilled v \<Longrightarrow> promise_resolve v = Fulfilled v"
  by (induction x rule: promise_resolve.induct) auto

lemma promise_resolve_idem:
  "promise_resolve (VPromise (promise_resolve x)) = promise_resolve x"
  by (cases "promise_resolve x") (auto simp: promise_resolve_flat)

lemma await_resolved: "js_await (VPromise (promise_resolve x)) = js_await x"
  by (simp add: js_await_def promise_resolve_idem)

lemma settle_plain: "\<not> is_promise y \<Longrightarrow> settle (Returns y) = Fulfilled y"
  by (cases y) simp_all

text \<open>
  The two classes write the callbacks of \<open>ifElse\<close> and \<open>tap\<close> differently
  (\<open>await Promise.resolve(x)\<close> against \<open>await x\<close>); they do the same.
\<close>

lemma ifElse_cb_same: "ifElse_cb_e c t e = ifElse_cb_l c t e"
  unfolding ifElse_cb_e_def ifElse_cb_l_def await_resolved ..

lemma tap_cb_same: "tap_cb_e fn = tap_cb_l fn"
  unfolding tap_cb_e_def tap_cb_l_def await_resolved ..

text \<open>Composing two \<open>then\<close> reactions, when the first function returns no promise.\<close>

lemma then_then:
  assumes "\<forall>x w. returns_plain (fst (f x w))"
  shows "(case promise_then q f w of (q1, w1) \<Rightarrow> promise_then q1 g w1)
           = promise_then q (compose_fn g f) w"
proof (cases q)
  case (Rejected e)
  then show ?thesis by simp
next
  case (Fulfilled v)
  show ?thesis
  proof (cases "f v w")
    case (Pair c w1)
    show ?thesis
    proof (cases c)
      case (Throws e)
      with Pair Fulfilled show ?thesis by (simp add: compose_fn_def)
    next
      case (Returns y)
      with Pair assms[rule_format, of v w] have "\<not> is_promise y" by simp
      with Pair Fulfilled Returns show ?thesis
        by (simp add: compose_fn_def settle_plain del: settle.simps)
    qed
  qed
qed

section \<open>Facts about lazy chains\<close>

lemma attach_l_world: "snd (attach_l c p w) = w"
  by (cases c)
    (simp_all add: map_l_def flatMap_l_def if_l_def ifElse_l_def tap_l_def log_l_def
      assert_l_def catch_l_def finally_l_def)

lemma attach_l_handle: "fst (attach_l c p w) = fst (attach_l c p w')"
  by (cases c)
    (simp_all add: map_l_def flatMap_l_def if_l_def ifElse_l_def tap_l_def log_l_def
      assert_l_def catch_l_def finally_l_def)

lemma attach_l_thunk: "l_thunk (fst (attach_l c p w)) w' = on_thunk (l_thunk p) (react_l c) w'"
  by (cases c)
    (simp_all add: map_l_def flatMap_l_def if_l_def ifElse_l_def tap_l_def log_l_def
      assert_l_def catch_l_def finally_l_def on_thunk_def split: prod.splits sum.splits)

lemma chain_l_world: "snd (chain_l cs p w) = w"
proof (induction cs arbitrary: p)
  case Nil
  show ?case by simp
next
  case (Cons c cs)
  then show ?case
    using attach_l_world[of c p w] by (cases "attach_l c p w") simp
qed

lemma chain_l_handle: "fst (chain_l cs p w) = fst (chain_l cs p w')"
proof (induction cs arbitrary: p w w')
  case Nil
  show ?case by simp
next
  case (Cons c cs)
  show ?case
    using attach_l_handle[of c p w w']
      Cons.IH[of "fst (attach_l c p w)" "snd (attach_l c p w)" "snd (attach_l c p w')"]
    by (simp add: split_beta)
qed

lemma construct_l_world: "snd (construct_l r w) = w"
  by (cases r) (simp_all add: of_l_def from_l_def)

lemma construct_l_handle: "fst (construct_l r w) = fst (construct_l r w')"
  by (cases r) (simp_all add: of_l_def from_l_def)

lemma construct_l_thunk: "l_thunk (fst (construct_l r w)) w' = exec_root r w'"
  by (cases r) (simp_all add: of_l_def from_l_def)

lemma exec_calls_thrown: "exec_calls cs (Inl e, w) = (Inl e, w)"
  by (cases cs) simp_all

lemma react_then_rejected: "uses_then c \<Longrightarrow> react_l c (Rejected e) w = (Rejected e, w)"
  by (cases c) simp_all

lemma exec_calls_rejected:
  "\<forall>c \<in> set cs. uses_then c \<Longrightarrow> exec_calls cs (Inr (Rejected e), w) = (Inr (Rejected e), w)"
  by (induction cs) (simp_all add: react_then_rejected)

lemma on_thunk_exec:
  "exec_calls cs (on_thunk th (react_l c) w) = exec_calls (c # cs) (th w)"
proof (cases "th w")
  case (Pair r w1)
  then show ?thesis
    by (cases r) (simp_all add: on_thunk_def exec_calls_thrown split: prod.splits)
qed

lemma chain_l_thunk:
  "l_thunk (fst (chain_l cs p w)) w' = exec_calls cs (l_thunk p w')"
proof (induction cs arbitrary: p w)
  case Nil
  show ?case by simp
next
  case (Cons c cs)
  obtain q w1 where a: "attach_l c p w = (q, w1)"
    by (cases "attach_l c p w")
  have "l_thunk q w' = on_thunk (l_thunk p) (react_l c) w'"
    using attach_l_thunk[of c p w w'] a by simp
  then show ?case
    using Cons.IH[of q w1] a by (simp add: on_thunk_exec del: exec_calls.simps)
qed

lemma build_l_world: "snd (build_l r cs w) = w"
  by (cases "construct_l r w")
    (use construct_l_world[of r w] in \<open>simp add: build_l_def chain_l_world\<close>)

lemma build_l_run: "run_l (fst (build_l r cs w)) w' = exec_chain r cs w'"
  by (cases "construct_l r w")
    (use construct_l_thunk[of r w] in
      \<open>simp add: build_l_def run_l_def exec_chain_def chain_l_thunk\<close>)

section \<open>What each step does to a settled promise\<close>

text \<open>
  The eager \<open>from\<close> turns a throw of its function into a rejected promise; a failed check
  of the lazy \<open>assert\<close> rejects; \<open>catch\<close> and \<open>finally\<close> react to a promise as
  \<open>Promise.prototype.catch\<close> and \<open>Promise.prototype.finally\<close> do.
\<close>

lemma from_e_throw: "fn w = (Throws e, w1) \<Longrightarrow> from_e fn w = (Pieper_e (Rejected e), w1)"
  by (simp add: from_e_def)

lemma assert_l_false:
  assumes "run_l p w = (Inr (Fulfilled v), w1)"
    and "predicate v w1 = (Returns r, w2)"
    and "js_await r = Fulfilled b"
    and "\<not> truthy b"
  shows "run_l (fst (assert_l predicate m p w0)) w = (Inr (Rejected (assert_error m)), w2)"
    and "runSafe_l (fst (assert_l predicate m p w0)) w = (Fulfilled (Ok_false (assert_error m)), w2)"
  using assms
  by (simp_all add: run_l_def runSafe_l_def assert_l_def on_thunk_def assert_cb_l_def
      async_returns_def)

lemma catch_l_rejected:
  "run_l p w = (Inr (Rejected e), w1) \<Longrightarrow> fn e w1 = (c, w2) \<Longrightarrow>
   run_l (fst (catch_l fn p w0)) w = (Inr (settle c), w2)"
  by (simp add: run_l_def catch_l_def on_thunk_def)

lemma catch_l_fulfilled:
  "run_l p w = (Inr (Fulfilled v), w1) \<Longrightarrow>
   run_l (fst (catch_l fn p w0)) w = (Inr (Fulfilled v), w1)"
  by (simp add: run_l_def catch_l_def on_thunk_def)

lemma catch_l_thrown:
  "run_l p w = (Inl e, w1) \<Longrightarrow> run_l (fst (catch_l fn p w0)) w = (Inl e, w1)"
  by (simp add: run_l_def catch_l_def on_thunk_def)

lemma catch_e_rejected:
  "e_value q = Rejected e \<Longrightarrow> fn e w = (c, w1) \<Longrightarrow> catch_e fn q w = (Pieper_e (settle c), w1)"
  by (simp add: catch_e_def)

lemma catch_e_fulfilled: "e_value q = Fulfilled v \<Longrightarrow> catch_e fn q w = (q, w)"
  by (cases q) (simp add: catch_e_def)

lemma finally_l_settled:
  "run_l p w = (Inr q, w1) \<Longrightarrow> fn w1 = (c, w2) \<Longrightarrow>
   run_l (fst (finally_l fn p w0)) w =
     (Inr (case settle c of Rejected e \<Rightarrow> Rejected e | Fulfilled r \<Rightarrow> q), w2)"
  by (simp add: run_l_def finally_l_def on_thunk_def promise_finally_def split: promise.splits)

lemma finally_l_thrown:
  "run_l p w = (Inl e, w1) \<Longrightarrow> run_l (fst (finally_l fn p w0)) w = (Inl e, w1)"
  by (simp add: run_l_def finally_l_def on_thunk_def)

lemma finally_e_settled:
  "fn w = (c, w1) \<Longrightarrow>
   finally_e fn q w =
     (Pieper_e (case settle c of Rejected e \<Rightarrow> Rejected e | Fulfilled r \<Rightarrow> e_value q), w1)"
  by (simp add: finally_e_def promise_finally_def split: promise.splits)

section \<open>The claims\<close>

text \<open>
  Claim C1: after a check that fails, \<open>assert\<close> leaves the pipeline failed with the error,
  and \<open>runSafe\<close> gives \<open>{ok: false, error}\<close>, never \<open>{ok: true}\<close> with the error as the
  value. The lazy class does so (\<open>assert_l_false\<close>). The eager class does not: its callback
  returns the error instead of throwing it, so
  \<open>Pieper.of(1).map((x) => x * 10).assert((x) => x > 20, "too small").runSafe()\<close>
  resolves to \<open>{ok: true, value: Error("too small")}\<close>.
\<close>

theorem eager_assert_false_resolves_ok:
  "fst (dot (dot (dot (of_e (VNum 1) world0)
                   (map_e (noted ''times'' (times_k 10))))
              (assert_e (noted ''check'' (greater_k 20)) (VStr ''too small'')))
         runSafe_e)
   = Fulfilled (Ok_true (VError ''too small''))"
  by (simp add: eager_defs callback_defs example_defs)

text \<open>
  Claim C2: when the function given to \<open>from\<close> throws, \<open>run()\<close> returns a rejected
  promise instead of throwing. The eager class does so (\<open>from_e_throw\<close>). In the lazy
  class the thunk is \<open>() => Promise.resolve(fn())\<close>, the throw of \<open>fn\<close> leaves the thunk,
  and \<open>Pieper.from(() => { throw new Error("boom"); }).run()\<close> throws.
\<close>

theorem lazy_from_throw_leaves_run:
  "fst (dot (from_l thrower world0) run_l) = Inl (VError ''boom'')"
  by (simp add: lazy_defs example_defs)

text \<open>
  Claim C3: \<open>catch(fn)\<close> calls \<open>fn\<close> on a failure and adopts its result, and
  \<open>from(() => { throw E }).catch((e) => R).run()\<close> resolves to \<open>R\<close>. On a rejected promise
  both classes do so (\<open>catch_l_rejected\<close>, \<open>catch_e_rejected\<close>). In the lazy class the
  throw of the root function is no rejected promise: \<open>this.thunk().catch(fn)\<close> never
  reaches \<open>catch\<close> (\<open>catch_l_thrown\<close>), the handler is not called and \<open>run()\<close> throws.
\<close>

theorem lazy_catch_misses_root_throw:
  "fst (dot (dot (from_l thrower world0) (catch_l (noted ''handler'' (const_fn (VNum 0))))) run_l)
     = Inl (VError ''boom'')
   \<and> user (snd (dot (dot (from_l thrower world0)
                      (catch_l (noted ''handler'' (const_fn (VNum 0))))) run_l))
     = [''root'']"
  by (simp add: lazy_defs example_defs)

text \<open>
  Claim C4, as amended: in the lazy class, building a chain (a root constructor followed by
  any chaining calls, \<open>flatMap\<close> included) calls no function of the caller: it leaves the
  world as it was, and the pipeline it returns does not depend on the world it was built in.
\<close>

theorem lazy_construction_calls_nothing:
  "snd (build_l r cs w) = w \<and> fst (build_l r cs w) = fst (build_l r cs w')"
proof -
  have "fst (build_l r cs w) = fst (chain_l cs (fst (construct_l r w)) (snd (construct_l r w)))"
    by (simp add: build_l_def split_beta)
  also have "\<dots> = fst (chain_l cs (fst (construct_l r w')) (snd (construct_l r w')))"
    using construct_l_handle[of r w w'] chain_l_handle by metis
  also have "\<dots> = fst (build_l r cs w')"
    by (simp add: build_l_def split_beta)
  finally show ?thesis
    by (simp add: build_l_world)
qed

theorem lazy_construction_calls_nothing_witness:
  "snd (build_l (Root_from producer)
          [Call_map (noted ''f'' (plus_k 2)),
           Call_tap (noted ''t'' (const_fn VUndefined)),
           Call_catch (noted ''h'' (const_fn (VNum 0)))] world0) = world0"
  using lazy_construction_calls_nothing
    [of "Root_from producer"
        "[Call_map (noted ''f'' (plus_k 2)),
          Call_tap (noted ''t'' (const_fn VUndefined)),
          Call_catch (noted ''h'' (const_fn (VNum 0)))]" world0 world0]
  by simp

text \<open>
  Claim C4 as stated fails on the eager class: \<open>Pieper.from(fn)\<close> calls \<open>fn\<close> inside the
  \<open>Promise\<close> constructor, with no terminal operation in sight.
\<close>

theorem eager_from_calls_at_construction:
  "user (snd (from_e producer world0)) = [''root''] \<and> snd (from_e producer world0) \<noteq> world0"
  by (simp add: eager_defs example_defs)

text \<open>
  Claim C5: whatever the chain did (fulfilled, rejected, or thrown out of the thunk),
  \<open>runSafe\<close> returns a promise that fulfils, with \<open>{ok: true, value}\<close> for a fulfilled chain
  and \<open>{ok: false, error}\<close> carrying the failure otherwise; it changes the world no more
  than \<open>run\<close> does. Both classes.
\<close>

theorem runSafe_always_resolves:
  "runSafe_l p w =
     (Fulfilled (case fst (run_l p w) of
                   Inl error \<Rightarrow> Ok_false error
                 | Inr (Fulfilled v) \<Rightarrow> Ok_true v
                 | Inr (Rejected error) \<Rightarrow> Ok_false error),
      snd (run_l p w))
   \<and> runSafe_e q w' =
     (Fulfilled (case fst (run_e q w') of
                   Fulfilled v \<Rightarrow> Ok_true v
                 | Rejected error \<Rightarrow> Ok_false error),
      snd (run_e q w'))"
  by (simp add: runSafe_l_def run_l_def runSafe_e_def run_e_def
      split: prod.splits sum.splits promise.splits)

theorem runSafe_always_resolves_witness:
  "fst (runSafe_l (fst (from_l thrower world0)) world0) = Fulfilled (Ok_false (VError ''boom''))
   \<and> fst (runSafe_e (fst (of_e (VNum 5) world0)) world0) = Fulfilled (Ok_true (VNum 5))"
  using runSafe_always_resolves
    [of "fst (from_l thrower world0)" world0 "fst (of_e (VNum 5) world0)" world0]
  by (simp add: lazy_defs eager_defs example_defs)

text \<open>
  Claim C6: once the chain has failed, the functions of the following \<open>map\<close>, \<open>if\<close>,
  \<open>ifElse\<close>, \<open>tap\<close> and \<open>assert\<close> steps are not called and the failure passes through
  unchanged. In the lazy class a failure is a thunk that threw or returned a rejected
  promise, and any run of such steps (\<open>flatMap\<close> and \<open>log\<close> too) leaves the result and
  the world of \<open>run\<close> as they were; in the eager class a failure is a rejected promise, and
  each such step returns the same pipeline and the same world. The functions are arbitrary,
  so one that was called could change the world.
\<close>

theorem failure_skips_then_steps:
  assumes "fst (run_l p w) = Inl e \<or> fst (run_l p w) = Inr (Rejected e)"
    and "\<forall>c \<in> set cs. uses_then c"
    and "e_value q = Rejected e'"
  shows "run_l (fst (chain_l cs p w0)) w = run_l p w
       \<and> map_e fn q w' = (q, w')
       \<and> if_e condition thenFn q w' = (q, w')
       \<and> ifElse_e condition thenFn elseFn q w' = (q, w')
       \<and> tap_e fn q w' = (q, w')
       \<and> log_e message q w' = (q, w')
       \<and> assert_e predicate errorMessageOrError q w' = (q, w')"
proof -
  have "exec_calls cs (l_thunk p w) = l_thunk p w"
  proof (cases "l_thunk p w")
    case (Pair r w1)
    with assms(1) show ?thesis
      by (auto simp: run_l_def exec_calls_thrown exec_calls_rejected[OF assms(2)])
  qed
  then have lazy: "run_l (fst (chain_l cs p w0)) w = run_l p w"
    by (simp add: run_l_def chain_l_thunk)
  have q: "Pieper_e (Rejected e') = q"
    using assms(3) by (cases q) simp
  show ?thesis
    using lazy assms(3) q
    by (simp add: map_e_def if_e_def ifElse_e_def tap_e_def log_e_def assert_e_def)
qed

theorem failure_skips_then_steps_witness:
  "run_l (fst (chain_l [Call_map (noted ''f'' (times_k 2)),
                         Call_if (noted ''c'' (greater_k 5)) (noted ''t'' (times_k 10)),
                         Call_tap (noted ''tap'' (const_fn VUndefined)),
                         Call_assert (noted ''check'' (greater_k 20)) (VStr ''too small'')]
                 (fst (assert_l (noted ''first'' (greater_k 20)) (VStr ''m'')
                         (fst (of_l (VNum 1) world0)) world0)) world0)) world0
     = (Inr (Rejected (VError ''m'')), world0\<lparr>user := [''first'']\<rparr>)
   \<and> map_e (noted ''f'' (times_k 2)) (fst (from_e thrower world0)) world0
     = (Pieper_e (Rejected (VError ''boom'')), world0)"
proof -
  let ?p = "fst (assert_l (noted ''first'' (greater_k 20)) (VStr ''m'')
                   (fst (of_l (VNum 1) world0)) world0)"
  let ?cs = "[Call_map (noted ''f'' (times_k 2)),
              Call_if (noted ''c'' (greater_k 5)) (noted ''t'' (times_k 10)),
              Call_tap (noted ''tap'' (const_fn VUndefined)),
              Call_assert (noted ''check'' (greater_k 20)) (VStr ''too small'')]"
  let ?q = "fst (from_e thrower world0)"
  have run: "run_l ?p world0 = (Inr (Rejected (VError ''m'')), world0\<lparr>user := [''first'']\<rparr>)"
    by (simp add: lazy_defs callback_defs example_defs)
  have h1: "fst (run_l ?p world0) = Inl (VError ''m'')
            \<or> fst (run_l ?p world0) = Inr (Rejected (VError ''m''))"
    by (simp add: run)
  have h2: "\<forall>c \<in> set ?cs. uses_then c"
    by simp
  have h3: "e_value ?q = Rejected (VError ''boom'')"
    by (simp add: eager_defs example_defs)
  have q: "?q = Pieper_e (Rejected (VError ''boom''))"
    by (simp add: eager_defs example_defs)
  show ?thesis
    using failure_skips_then_steps[OF h1 h2 h3, of world0 "noted ''f'' (times_k 2)" world0] run q
    by simp
qed

text \<open>
  Claim C7, as amended: in the lazy class, a pipeline built from a root and a list of
  calls keeps nothing between terminal operations: every \<open>run\<close>, \<open>runSafe\<close> and
  \<open>runAndForget\<close> executes the whole chain from its root in the world it is called in,
  and a second \<open>run\<close> does so again in the world the first one left.
\<close>

theorem lazy_terminal_reexecutes_chain:
  assumes "p = fst (build_l r cs w0)"
  shows "run_l p w = exec_chain r cs w
       \<and> run_l p (snd (run_l p w)) = exec_chain r cs (snd (exec_chain r cs w))
       \<and> runSafe_l p w =
           (case exec_chain r cs w of
              (Inl error, w1) \<Rightarrow> (Fulfilled (Ok_false error), w1)
            | (Inr (Fulfilled v), w1) \<Rightarrow> (Fulfilled (Ok_true v), w1)
            | (Inr (Rejected error), w1) \<Rightarrow> (Fulfilled (Ok_false error), w1))
       \<and> runAndForget_l p w =
           (case exec_chain r cs w of
              (Inl e, w1) \<Rightarrow> (Inl e, w1)
            | (Inr q, w1) \<Rightarrow> (Inr (), snd (promise_catch q forget_handler w1)))"
proof -
  have "l_thunk p w = exec_chain r cs w" for w
    using build_l_run[of r cs w0 w] assms by (simp add: run_l_def)
  then show ?thesis
    by (simp add: run_l_def runSafe_l_def runAndForget_l_def)
qed

theorem lazy_terminal_reexecutes_chain_witness:
  "run_l (fst (build_l (Root_from producer) [Call_map (noted ''f'' (plus_k 1))] world0)) world0
     = (Inr (Fulfilled (VNum 6)), world0\<lparr>user := [''root'', ''f'']\<rparr>)
   \<and> run_l (fst (build_l (Root_from producer) [Call_map (noted ''f'' (plus_k 1))] world0))
        (world0\<lparr>user := [''root'', ''f'']\<rparr>)
     = (Inr (Fulfilled (VNum 6)), world0\<lparr>user := [''root'', ''f'', ''root'', ''f'']\<rparr>)"
proof -
  let ?r = "Root_from producer"
  let ?cs = "[Call_map (noted ''f'' (plus_k 1))]"
  let ?p = "fst (build_l ?r ?cs world0)"
  have ex: "exec_chain ?r ?cs w
              = (Inr (Fulfilled (VNum 6)), w\<lparr>user := user w @ [''root'', ''f'']\<rparr>)"
    for w :: "string list world"
    by (simp add: exec_chain_def noted_def noted0_def producer_def)
  have u: "user world0 = []"
    by (simp add: world0_def)
  note both = lazy_terminal_reexecutes_chain[OF refl, of ?r ?cs world0 world0]
  have first: "run_l ?p world0
                 = (Inr (Fulfilled (VNum 6)), world0\<lparr>user := [''root'', ''f'']\<rparr>)"
    using both by (simp add: ex u)
  have second: "run_l ?p (world0\<lparr>user := [''root'', ''f'']\<rparr>)
      = (Inr (Fulfilled (VNum 6)), world0\<lparr>user := [''root'', ''f'', ''root'', ''f'']\<rparr>)"
    using both by (simp add: ex u first)
  show ?thesis
    by (simp add: first second)
qed

text \<open>
  Claim C7 as stated fails on the eager class: \<open>run()\<close> returns the stored promise, so
  after \<open>Pieper.from(fn)\<close> and two calls of \<open>run()\<close> the root function has been called
  once, at construction, and not again.
\<close>

theorem eager_run_does_not_reexecute:
  "user (snd (from_e producer world0)) = [''root'']
   \<and> user (snd (run_e (fst (from_e producer world0))
                  (snd (run_e (fst (from_e producer world0)) (snd (from_e producer world0))))))
     = [''root'']"
  by (simp add: eager_defs example_defs)

text \<open>
  Claim C8: \<open>finally(fn)\<close> calls \<open>fn\<close> once after the step before it, whether that step
  succeeded or failed. On a promise both classes do so (\<open>finally_l_settled\<close>,
  \<open>finally_e_settled\<close>). In the lazy class a root function that throws leaves the thunk
  (\<open>finally_l_thrown\<close>): in
  \<open>Pieper.from(() => { throw new Error("boom"); }).finally(cleanup).run()\<close>
  the function \<open>cleanup\<close> is never called.
\<close>

theorem lazy_finally_misses_root_throw:
  "fst (dot (dot (from_l thrower world0) (finally_l (noted0 ''cleanup'' (Returns VUndefined))))
         run_l)
     = Inl (VError ''boom'')
   \<and> user (snd (dot (dot (from_l thrower world0)
                      (finally_l (noted0 ''cleanup'' (Returns VUndefined)))) run_l))
     = [''root'']"
  by (simp add: lazy_defs example_defs)

text \<open>
  Claim C9, as amended: when \<open>f\<close> never returns a promise, \<open>p.map(f).map(g)\<close> and
  \<open>p.map((x) => g(f(x)))\<close> do the same on every path, in both classes: the same result
  and the same world.
\<close>

theorem map_composition_plain:
  assumes "\<forall>x w. returns_plain (fst (f x w))"
  shows "run_l (fst (map_l g (fst (map_l f p w0)) w1)) w
           = run_l (fst (map_l (compose_fn g f) p w2)) w
       \<and> (case map_e f q w of (q1, w') \<Rightarrow> map_e g q1 w') = map_e (compose_fn g f) q w"
proof -
  have e: "(case map_e f q w of (q1, w') \<Rightarrow> map_e g q1 w') = map_e (compose_fn g f) q w"
    using then_then[OF assms, where q = "e_value q" and w = w and g = g]
    by (simp add: map_e_def split: prod.splits)
  have l: "run_l (fst (map_l g (fst (map_l f p w0)) w1)) w
             = run_l (fst (map_l (compose_fn g f) p w2)) w"
  proof (cases "l_thunk p w")
    case (Pair r wa)
    show ?thesis
    proof (cases r)
      case (Inl e)
      with Pair show ?thesis
        by (simp add: run_l_def map_l_def on_thunk_def)
    next
      case (Inr b)
      have "promise_then b (compose_fn g f) wa =
              (case promise_then b f wa of (q1, w1) \<Rightarrow> promise_then q1 g w1)"
        using then_then[OF assms, where q = b and w = wa and g = g] by simp
      with Pair Inr show ?thesis
        by (simp add: run_l_def map_l_def on_thunk_def split_beta)
    qed
  qed
  from e l show ?thesis by simp
qed

theorem map_composition_plain_witness:
  "run_l (fst (map_l (noted ''g'' (times_k 2))
                 (fst (map_l (noted ''f'' (plus_k 1)) (fst (of_l (VNum 5) world0)) world0))
                 world0)) world0
    = (Inr (Fulfilled (VNum 12)), world0\<lparr>user := [''f'', ''g'']\<rparr>)
   \<and> run_l (fst (map_l (compose_fn (noted ''g'' (times_k 2)) (noted ''f'' (plus_k 1)))
                   (fst (of_l (VNum 5) world0)) world0)) world0
    = (Inr (Fulfilled (VNum 12)), world0\<lparr>user := [''f'', ''g'']\<rparr>)"
proof -
  have h: "\<forall>x w. returns_plain (fst (noted ''f'' (plus_k 1) x w))"
  proof (intro allI)
    fix x :: jsval and w :: "string list world"
    show "returns_plain (fst (noted ''f'' (plus_k 1) x w))"
      by (cases x) (simp_all add: noted_def)
  qed
  have r: "run_l (fst (map_l (compose_fn (noted ''g'' (times_k 2)) (noted ''f'' (plus_k 1)))
                        (fst (of_l (VNum 5) world0)) world0)) world0
    = (Inr (Fulfilled (VNum 12)), world0\<lparr>user := [''f'', ''g'']\<rparr>)"
    by (simp add: lazy_defs example_defs compose_fn_def)
  show ?thesis
    using map_composition_plain
      [OF h, of "noted ''g'' (times_k 2)" "fst (of_l (VNum 5) world0)"
         world0 world0 world0 world0] r
    by simp
qed

text \<open>
  Claim C9 as stated fails when \<open>f\<close> returns a promise, though \<open>p\<close> succeeds and \<open>f\<close>
  does not fail: with \<open>f = async (x) => x + 1\<close> and \<open>g = (y) => y instanceof Promise\<close>,
  \<open>Pieper.of(5).map(f).map(g)\<close> hands \<open>g\<close> the number and resolves to \<open>false\<close>, and
  \<open>Pieper.of(5).map((x) => g(f(x)))\<close> hands \<open>g\<close> the promise and resolves to \<open>true\<close>.
\<close>

theorem map_composition_promise_differs:
  "fst (dot (dot (dot (of_l (VNum 5) world0) (map_l (noted ''f'' (plus_k_async 1))))
              (map_l (noted ''g'' instanceof_Promise))) run_l)
     = Inr (Fulfilled (VBool False))
   \<and> fst (dot (dot (of_l (VNum 5) world0)
                (map_l (compose_fn (noted ''g'' instanceof_Promise)
                          (noted ''f'' (plus_k_async 1))))) run_l)
     = Inr (Fulfilled (VBool True))
   \<and> fst (dot (dot (dot (of_l (VNum 5) world0) (map_l (noted ''f'' (plus_k_async 1))))
                (map_l (noted ''g'' instanceof_Promise))) run_l)
     \<noteq> fst (dot (dot (of_l (VNum 5) world0)
                    (map_l (compose_fn (noted ''g'' instanceof_Promise)
                              (noted ''f'' (plus_k_async 1))))) run_l)"
  by (simp add: lazy_defs example_defs compose_fn_def)

text \<open>
  The else branch that \<open>if\<close> hands to \<open>ifElse\<close> returns its argument and leaves the
  world alone.
\<close>

lemma identity_fn_returns_argument: "identity_fn = (\<lambda>x s. (Returns x, s))"
  by (intro ext) (simp add: identity_fn_def)

text \<open>
  Claim C10: \<open>p.if(c, f)\<close> is \<open>p.ifElse(c, f, (x) => x)\<close>, in both classes: the same
  pipeline and the same world, where the else branch is written out as the function that
  returns its argument.
\<close>

theorem if_is_ifElse_identity:
  "if_l condition thenFn p w = ifElse_l condition thenFn (\<lambda>x s. (Returns x, s)) p w
   \<and> if_e condition thenFn q w' = ifElse_e condition thenFn (\<lambda>x s. (Returns x, s)) q w'"
  unfolding if_l_def if_e_def identity_fn_returns_argument by simp

text \<open>
  At \<open>Pieper.of(3).if((x) => x > 5, (x) => x * 10)\<close> the condition is false: the value
  \<open>3\<close> passes through and the then branch is not called, as in
  \<open>Pieper.of(3).ifElse((x) => x > 5, (x) => x * 10, (x) => x)\<close>; at \<open>Pieper.of(7)\<close> the
  then branch gives \<open>70\<close>.
\<close>

theorem if_is_ifElse_identity_witness:
  "run_l (fst (if_l (noted ''c'' (greater_k 5)) (noted ''t'' (times_k 10))
                 (fst (of_l (VNum 3) world0)) world0)) world0
     = (Inr (Fulfilled (VNum 3)), world0\<lparr>user := [''c'']\<rparr>)
   \<and> run_l (fst (ifElse_l (noted ''c'' (greater_k 5)) (noted ''t'' (times_k 10))
                   (\<lambda>x s. (Returns x, s)) (fst (of_l (VNum 3) world0)) world0)) world0
     = (Inr (Fulfilled (VNum 3)), world0\<lparr>user := [''c'']\<rparr>)
   \<and> if_e (noted ''c'' (greater_k 5)) (noted ''t'' (times_k 10))
        (fst (of_e (VNum 3) world0)) world0
     = (Pieper_e (Fulfilled (VNum 3)), world0\<lparr>user := [''c'']\<rparr>)
   \<and> ifElse_e (noted ''c'' (greater_k 5)) (noted ''t'' (times_k 10))
        (\<lambda>x s. (Returns x, s)) (fst (of_e (VNum 3) world0)) world0
     = (Pieper_e (Fulfilled (VNum 3)), world0\<lparr>user := [''c'']\<rparr>)
   \<and> run_l (fst (if_l (noted ''c'' (greater_k 5)) (noted ''t'' (times_k 10))
                   (fst (of_l (VNum 7) world0)) world0)) world0
     = (Inr (Fulfilled (VNum 70)), world0\<lparr>user := [''c'', ''t'']\<rparr>)
   \<and> if_e (noted ''c'' (greater_k 5)) (noted ''t'' (times_k 10))
        (fst (of_e (VNum 7) world0)) world0
     = (Pieper_e (Fulfilled (VNum 70)), world0\<lparr>user := [''c'', ''t'']\<rparr>)"
proof -
  let ?c = "noted ''c'' (greater_k 5)"
  let ?t = "noted ''t'' (times_k 10)"
  let ?else = "\<lambda>x (s :: string list world). (Returns x, s)"
  have l3: "run_l (fst (ifElse_l ?c ?t ?else (fst (of_l (VNum 3) world0)) world0)) world0
              = (Inr (Fulfilled (VNum 3)), world0\<lparr>user := [''c'']\<rparr>)"
    by (simp add: ifElse_l_def of_l_def run_l_def on_thunk_def ifElse_cb_l_def
        async_returns_def js_await_def noted_def world0_def)
  have l7: "run_l (fst (ifElse_l ?c ?t ?else (fst (of_l (VNum 7) world0)) world0)) world0
              = (Inr (Fulfilled (VNum 70)), world0\<lparr>user := [''c'', ''t'']\<rparr>)"
    by (simp add: ifElse_l_def of_l_def run_l_def on_thunk_def ifElse_cb_l_def
        async_returns_def js_await_def noted_def world0_def)
  have e3: "ifElse_e ?c ?t ?else (fst (of_e (VNum 3) world0)) world0
              = (Pieper_e (Fulfilled (VNum 3)), world0\<lparr>user := [''c'']\<rparr>)"
    by (simp add: ifElse_e_def of_e_def ifElse_cb_e_def async_returns_def js_await_def
        noted_def world0_def)
  have e7: "ifElse_e ?c ?t ?else (fst (of_e (VNum 7) world0)) world0
              = (Pieper_e (Fulfilled (VNum 70)), world0\<lparr>user := [''c'', ''t'']\<rparr>)"
    by (simp add: ifElse_e_def of_e_def ifElse_cb_e_def async_returns_def js_await_def
        noted_def world0_def)
  note at3 = if_is_ifElse_identity
    [of ?c ?t "fst (of_l (VNum 3) world0)" world0 "fst (of_e (VNum 3) world0)" world0]
  note at7 = if_is_ifElse_identity
    [of ?c ?t "fst (of_l (VNum 7) world0)" world0 "fst (of_e (VNum 7) world0)" world0]
  show ?thesis
    using at3 at7 l3 l7 e3 e7 by simp
qed

end
